theory Spec2Isabelle
  imports Complex_Main "HOL-Library.Multiset"
begin

section \<open>Values, responses and the outside world\<close>

text \<open>
  The collector \<^verbatim>\<open>src/gh_client.py\<close> works on decoded JSON. A Python value is
  modelled by \<open>json\<close>. A \<^verbatim>\<open>float\<close> is given by its exact value, a rational
  number (there is no infinity and no NaN); what floating-point operations return is left
  to the environment below. A \<^verbatim>\<open>dict\<close> is the list of its items in insertion
  order, with pairwise distinct keys. A \<open>char\<close> of a string stands for a code point
  below 256.
\<close>

datatype json =
    JNone
  | JBool bool
  | JInt int
  | JFloat rat
  | JStr string
  | JList "json list"
  | JDict "(string \<times> json) list"

text \<open>Every exception the collector can raise is a value of \<open>py_error\<close>.\<close>

datatype py_error =
    UnboundLocalError
  | ValueError
  | TypeError
  | AttributeError
  | JSONDecodeError
  | IndexError
  | KeyError
  | OverflowError

text \<open>
  \<^verbatim>\<open>requests.Response\<close>: the status code, \<^verbatim>\<open>resp.headers.get\<close> as a function
  of the header name, and the decoded body (\<open>None\<close> when the text is not JSON, so that
  \<^verbatim>\<open>resp.json()\<close> raises).
\<close>

record response =
  status_code :: int
  headers :: "string \<Rightarrow> string option"
  body :: "json option"

record request =
  url :: string
  params :: "(string \<times> json) list option"

text \<open>One call of \<^verbatim>\<open>session.get\<close> returns a response or raises a
  \<^verbatim>\<open>requests.exceptions.RequestException\<close> (connection error, timeout).\<close>

datatype outcome = Response response | RequestException

text \<open>A parsed \<^verbatim>\<open>datetime\<close>: whether it carries a UTC offset, its position on the
  time line in microseconds, and its own calendar date in ISO format.\<close>

record datetime =
  aware :: bool
  instant :: int
  date_iso :: string

text \<open>
  What the collector does not decide is a parameter: the upstream server (the answer to
  the \<open>n\<close>-th call of \<^verbatim>\<open>session.get\<close>), the system clock (its \<open>n\<close>-th reading,
  in microseconds since the epoch) and the library functions. These are
  \<^verbatim>\<open>int(str)\<close> and \<^verbatim>\<open>datetime.fromisoformat\<close> (\<open>None\<close> is
  \<^verbatim>\<open>ValueError\<close>), \<^verbatim>\<open>datetime.isoformat\<close> and \<^verbatim>\<open>date.isoformat\<close> of a
  UTC instant, the values of the \<^verbatim>\<open>page\<close> parameter in the query of a URL
  (\<^verbatim>\<open>parse_qs(urlparse(u).query).get('page')\<close>), and the floating-point operations,
  on floats given by their exact values: \<^verbatim>\<open>x / y\<close>, \<^verbatim>\<open>sum(xs)\<close>,
  \<^verbatim>\<open>round(x, 2)\<close> and \<^verbatim>\<open>timedelta.total_seconds()\<close> of a duration in
  microseconds.
\<close>

record env =
  net :: "nat \<Rightarrow> request \<Rightarrow> outcome"
  clock :: "nat \<Rightarrow> int"
  py_int :: "string \<Rightarrow> int option"
  fromisoformat :: "string \<Rightarrow> datetime option"
  isoformat :: "int \<Rightarrow> string"
  date_isoformat :: "int \<Rightarrow> string"
  query_page :: "string \<Rightarrow> string list option"
  float_div :: "rat \<Rightarrow> rat \<Rightarrow> rat"
  float_sum :: "rat list \<Rightarrow> rat"
  round2 :: "rat \<Rightarrow> rat"
  total_seconds :: "int \<Rightarrow> rat"

text \<open>What a run does to the outside: a request sent, or a \<^verbatim>\<open>time.sleep\<close> of
  so many seconds.\<close>

datatype event = Get request | Sleep rat

text \<open>The state of a run: the number of calls of \<^verbatim>\<open>session.get\<close> and of
  clock readings so far, and the events in the order they happened.\<close>

record world =
  calls :: nat
  ticks :: nat
  trace :: "event list"

definition session_get :: "env \<Rightarrow> request \<Rightarrow> world \<Rightarrow> outcome \<times> world" where
  "session_get E rq w =
     (net E (calls w) rq, w\<lparr>calls := Suc (calls w), trace := trace w @ [Get rq]\<rparr>)"

definition read_clock :: "env \<Rightarrow> world \<Rightarrow> int \<times> world" where
  "read_clock E w = (clock E (ticks w), w\<lparr>ticks := Suc (ticks w)\<rparr>)"

text \<open>\<^verbatim>\<open>time.sleep(d)\<close>: the duration is converted to a 64-bit count of
  nanoseconds, and one that does not fit raises \<^verbatim>\<open>OverflowError\<close>.\<close>

definition time_sleep :: "rat \<Rightarrow> world \<Rightarrow> (py_error + unit) \<times> world" where
  "time_sleep d w =
     (if 9223372036854775807 < d * 1000000000 then (Inl OverflowError, w)
      else (Inr (), w\<lparr>trace := trace w @ [Sleep d]\<rparr>))"

text \<open>The requests among some events, in order.\<close>

fun sent :: "event list \<Rightarrow> request list" where
  "sent [] = []"
| "sent (Get rq # es) = rq # sent es"
| "sent (Sleep d # es) = sent es"

text \<open>\<^verbatim>\<open>int(time.time())\<close>: whole seconds, truncated towards zero.\<close>

definition whole_seconds :: "int \<Rightarrow> int" where
  "whole_seconds t = (if 0 \<le> t then t div 1000000 else - ((- t) div 1000000))"

section \<open>The request executor\<close>

text \<open>\<^verbatim>\<open>_respect_rate_limit\<close>. \<^verbatim>\<open>int(reset)\<close> and
  \<^verbatim>\<open>time.sleep\<close> may raise.\<close>

definition respect_rate_limit :: "env \<Rightarrow> response \<Rightarrow> world \<Rightarrow> (py_error + unit) \<times> world" where
  "respect_rate_limit E resp w =
     (if status_code resp = 403 then
        (let remaining = headers resp ''X-RateLimit-Remaining'';
             reset = headers resp ''X-RateLimit-Reset''
         in case reset of
              None \<Rightarrow> (Inr (), w)
            | Some rs \<Rightarrow>
                if remaining = Some ''0'' \<and> rs \<noteq> [] then
                  (case py_int E rs of
                     None \<Rightarrow> (Inl ValueError, w)
                   | Some reset_ts \<Rightarrow>
                       (let (t, w1) = read_clock E w;
                            now = whole_seconds t;
                            sleep_sec = max 0 (reset_ts - now) + 1
                        in time_sleep (of_int sleep_sec) w1))
                else (Inr (), w))
      else (Inr (), w))"

text \<open>
  \<^verbatim>\<open>_safe_request\<close>: the body of \<^verbatim>\<open>for _ in range(5)\<close> with \<open>n\<close> iterations
  left. \<open>resp\<close> is the local variable of that name: unbound (\<open>None\<close>) until some
  \<^verbatim>\<open>session.get\<close> has returned.
\<close>

fun safe_request_loop ::
  "env \<Rightarrow> request \<Rightarrow> nat \<Rightarrow> response option \<Rightarrow> world \<Rightarrow> (py_error + response) \<times> world" where
  "safe_request_loop E rq 0 resp w =
     (case resp of None \<Rightarrow> (Inl UnboundLocalError, w) | Some r \<Rightarrow> (Inr r, w))"
| "safe_request_loop E rq (Suc n) resp w =
     (case session_get E rq w of
        (RequestException, w1) \<Rightarrow>
          (case time_sleep (3 / 2) w1 of
             (Inl e, w2) \<Rightarrow> (Inl e, w2)
           | (Inr u, w2) \<Rightarrow> safe_request_loop E rq n resp w2)
      | (Response r, w1) \<Rightarrow>
          if status_code r = 403 then
            (case respect_rate_limit E r w1 of
               (Inl e, w2) \<Rightarrow> (Inl e, w2)
             | (Inr u, w2) \<Rightarrow> safe_request_loop E rq n (Some r) w2)
          else if status_code r = 200 \<or> status_code r = 201 then (Inr r, w1)
          else (case time_sleep (3 / 2) w1 of
                  (Inl e, w2) \<Rightarrow> (Inl e, w2)
                | (Inr u, w2) \<Rightarrow> safe_request_loop E rq n (Some r) w2))"

definition safe_request :: "env \<Rightarrow> request \<Rightarrow> world \<Rightarrow> (py_error + response) \<times> world" where
  "safe_request E rq w = safe_request_loop E rq 5 None w"

section \<open>Python values\<close>

text \<open>Truth value of a Python object (\<^verbatim>\<open>if x\<close>, \<^verbatim>\<open>not x\<close>, \<^verbatim>\<open>x or y\<close>).\<close>

fun truthy :: "json \<Rightarrow> bool" where
  "truthy JNone = False"
| "truthy (JBool b) = b"
| "truthy (JInt i) = (i \<noteq> 0)"
| "truthy (JFloat r) = (r \<noteq> 0)"
| "truthy (JStr s) = (s \<noteq> [])"
| "truthy (JList xs) = (xs \<noteq> [])"
| "truthy (JDict kvs) = (kvs \<noteq> [])"

definition lookup :: "(string \<times> json) list \<Rightarrow> string \<Rightarrow> json \<Rightarrow> json" where
  "lookup kvs k dflt = (case map_of kvs k of None \<Rightarrow> dflt | Some v \<Rightarrow> v)"

text \<open>\<^verbatim>\<open>x.get(k, dflt)\<close>: only a dict has \<^verbatim>\<open>get\<close>.\<close>

fun dict_get :: "json \<Rightarrow> string \<Rightarrow> json \<Rightarrow> py_error + json" where
  "dict_get (JDict kvs) k dflt = Inr (lookup kvs k dflt)"
| "dict_get v k dflt = Inl AttributeError"

text \<open>\<^verbatim>\<open>x or y\<close>.\<close>

definition py_or :: "json \<Rightarrow> json \<Rightarrow> json" where
  "py_or x y = (if truthy x then x else y)"

text \<open>\<^verbatim>\<open>resp.json()\<close>.\<close>

definition resp_json :: "response \<Rightarrow> py_error + json" where
  "resp_json resp = (case body resp of None \<Rightarrow> Inl JSONDecodeError | Some j \<Rightarrow> Inr j)"

text \<open>\<^verbatim>\<open>len(x)\<close>.\<close>

fun py_len :: "json \<Rightarrow> py_error + nat" where
  "py_len (JStr s) = Inr (length s)"
| "py_len (JList xs) = Inr (length xs)"
| "py_len (JDict kvs) = Inr (length kvs)"
| "py_len v = Inl TypeError"

text \<open>The elements \<^verbatim>\<open>list.extend(x)\<close> appends: those of a list, the keys of a dict,
  the characters of a string.\<close>

fun py_iter :: "json \<Rightarrow> py_error + json list" where
  "py_iter (JList xs) = Inr xs"
| "py_iter (JDict kvs) = Inr (map (\<lambda>kv. JStr (fst kv)) kvs)"
| "py_iter (JStr s) = Inr (map (\<lambda>c. JStr [c]) s)"
| "py_iter v = Inl TypeError"

text \<open>\<^verbatim>\<open>x[0]\<close>.\<close>

fun py_index0 :: "json \<Rightarrow> py_error + json" where
  "py_index0 (JList []) = Inl IndexError"
| "py_index0 (JList (x # xs)) = Inr x"
| "py_index0 (JStr []) = Inl IndexError"
| "py_index0 (JStr (c # cs)) = Inr (JStr [c])"
| "py_index0 (JDict kvs) = Inl KeyError"
| "py_index0 v = Inl TypeError"

section \<open>Strings\<close>

text \<open>\<^verbatim>\<open>s.split(sep)\<close> for a one-character separator.\<close>

fun split_on :: "char \<Rightarrow> string \<Rightarrow> string list" where
  "split_on sep [] = [[]]"
| "split_on sep (c # cs) =
     (if c = sep then [] # split_on sep cs
      else (case split_on sep cs of
              [] \<Rightarrow> [[c]]
            | p # ps \<Rightarrow> (c # p) # ps))"

text \<open>\<^verbatim>\<open>sub in s\<close>.\<close>

fun contains :: "string \<Rightarrow> string \<Rightarrow> bool" where
  "contains sub [] = (sub = [])"
| "contains sub (c # cs) = (take (length sub) (c # cs) = sub \<or> contains sub cs)"

text \<open>What \<^verbatim>\<open>str.strip()\<close> removes. A \<open>char\<close> stands for a code point below
  256; these are the whitespace characters among them.\<close>

definition is_space :: "char \<Rightarrow> bool" where
  "is_space c = (c \<in> set [CHR '' '', CHR 0x09, CHR 0x0A, CHR 0x0B, CHR 0x0C, CHR 0x0D,
                          CHR 0x1C, CHR 0x1D, CHR 0x1E, CHR 0x1F, CHR 0x85, CHR 0xA0])"

definition lstrip :: "(char \<Rightarrow> bool) \<Rightarrow> string \<Rightarrow> string" where
  "lstrip p s = dropWhile p s"

definition rstrip :: "(char \<Rightarrow> bool) \<Rightarrow> string \<Rightarrow> string" where
  "rstrip p s = rev (dropWhile p (rev s))"

definition strip :: "string \<Rightarrow> string" where
  "strip s = rstrip is_space (lstrip is_space s)"

text \<open>\<^verbatim>\<open>s.replace('Z', '+00:00')\<close>.\<close>

definition replace_Z :: "string \<Rightarrow> string" where
  "replace_Z s = concat (map (\<lambda>c. if c = CHR ''Z'' then ''+00:00'' else [c]) s)"

section \<open>Link-relation probing\<close>

text \<open>
  The body of the \<^verbatim>\<open>try\<close> in \<^verbatim>\<open>_get_total_commits_count\<close>. Every exception
  there is caught and leaves \<^verbatim>\<open>last_page = None\<close>; \<open>query_page\<close> is \<open>None\<close>
  when the query has no \<^verbatim>\<open>page\<close> or the URL does not parse.
\<close>

definition last_page_of_part :: "env \<Rightarrow> string \<Rightarrow> json" where
  "last_page_of_part E part =
     (case split_on CHR '';'' part of
        [] \<Rightarrow> JNone
      | p # ps \<Rightarrow>
          (let url_part =
                 rstrip (\<lambda>c. c = CHR ''>'') (lstrip (\<lambda>c. c = CHR ''<'') (strip p))
           in case query_page E url_part of
                None \<Rightarrow> JNone
              | Some [] \<Rightarrow> JNone
              | Some (v # vs) \<Rightarrow> (case py_int E v of None \<Rightarrow> JNone | Some n \<Rightarrow> JInt n)))"

fun last_page_loop :: "env \<Rightarrow> string list \<Rightarrow> json \<Rightarrow> json" where
  "last_page_loop E [] last_page = last_page"
| "last_page_loop E (part # parts) last_page =
     (if contains ''rel=\"last\"'' part
      then last_page_loop E parts (last_page_of_part E part)
      else last_page_loop E parts last_page)"

definition per_page_1 :: "string \<Rightarrow> request" where
  "per_page_1 commits_url = \<lparr>url = commits_url, params = Some [(''per_page'', JInt 1)]\<rparr>"

text \<open>\<^verbatim>\<open>_get_total_commits_count\<close>.\<close>

definition get_total_commits_count :: "env \<Rightarrow> string \<Rightarrow> world \<Rightarrow> (py_error + json) \<times> world" where
  "get_total_commits_count E commits_url w =
     (case safe_request E (per_page_1 commits_url) w of
        (Inl e, w1) \<Rightarrow> (Inl e, w1)
      | (Inr resp, w1) \<Rightarrow>
          if status_code resp \<noteq> 200 then (Inr JNone, w1)
          else (case headers resp ''Link'' of
                  None \<Rightarrow>
                    (case resp_json resp of
                       Inl e \<Rightarrow> (Inl e, w1)
                     | Inr data \<Rightarrow>
                         (case py_len data of
                            Inl e \<Rightarrow> (Inl e, w1)
                          | Inr n \<Rightarrow> (Inr (JInt (int n)), w1)))
                | Some link \<Rightarrow>
                    if link = [] then
                      (case resp_json resp of
                         Inl e \<Rightarrow> (Inl e, w1)
                       | Inr data \<Rightarrow>
                           (case py_len data of
                              Inl e \<Rightarrow> (Inl e, w1)
                            | Inr n \<Rightarrow> (Inr (JInt (int n)), w1)))
                    else (Inr (last_page_loop E (split_on CHR '','' link) JNone), w1)))"

text \<open>\<^verbatim>\<open>c.get('commit', {}).get('committer', {}).get(key)\<close>.\<close>

definition committer_field :: "json \<Rightarrow> string \<Rightarrow> py_error + json" where
  "committer_field c key =
     (case dict_get c ''commit'' (JDict []) of
        Inl e \<Rightarrow> Inl e
      | Inr commit \<Rightarrow>
          (case dict_get commit ''committer'' (JDict []) of
             Inl e \<Rightarrow> Inl e
           | Inr committer \<Rightarrow> dict_get committer key JNone))"

text \<open>\<^verbatim>\<open>_get_latest_commit_date\<close>.\<close>

definition get_latest_commit_date :: "env \<Rightarrow> string \<Rightarrow> world \<Rightarrow> (py_error + json) \<times> world" where
  "get_latest_commit_date E commits_url w =
     (case safe_request E (per_page_1 commits_url) w of
        (Inl e, w1) \<Rightarrow> (Inl e, w1)
      | (Inr resp, w1) \<Rightarrow>
          if status_code resp \<noteq> 200 then (Inr JNone, w1)
          else (case resp_json resp of
                  Inl e \<Rightarrow> (Inl e, w1)
                | Inr data \<Rightarrow>
                    if \<not> truthy data then (Inr JNone, w1)
                    else (case py_index0 data of
                            Inl e \<Rightarrow> (Inl e, w1)
                          | Inr c \<Rightarrow> (committer_field c ''date'', w1))))"

section \<open>Exhaustive page walking\<close>

definition since_page :: "string \<Rightarrow> string \<Rightarrow> int \<Rightarrow> request" where
  "since_page commits_url since_iso page =
     \<lparr>url = commits_url,
      params = Some [(''since'', JStr since_iso), (''per_page'', JInt 100), (''page'', JInt page)]\<rparr>"

definition all_page :: "string \<Rightarrow> int \<Rightarrow> request" where
  "all_page commits_url page =
     \<lparr>url = commits_url, params = Some [(''per_page'', JInt 100), (''page'', JInt page)]\<rparr>"

text \<open>
  The \<^verbatim>\<open>while True\<close> of \<^verbatim>\<open>_collect_commits_since\<close>, entered with the current
  \<^verbatim>\<open>page\<close> and \<^verbatim>\<open>commits\<close>. Nothing bounds the number of pages, so the result
  is an option: \<open>None\<close> when the walk never ends.
\<close>

partial_function (option) collect_commits_since_loop ::
  "env \<Rightarrow> string \<Rightarrow> string \<Rightarrow> int \<Rightarrow> json list \<Rightarrow> world
     \<Rightarrow> ((py_error + json list) \<times> world) option" where
  "collect_commits_since_loop E commits_url since_iso page commits w =
     (case safe_request E (since_page commits_url since_iso page) w of
        (Inl e, w1) \<Rightarrow> Some (Inl e, w1)
      | (Inr resp, w1) \<Rightarrow>
          if status_code resp \<noteq> 200 then Some (Inr commits, w1)
          else (case resp_json resp of
                  Inl e \<Rightarrow> Some (Inl e, w1)
                | Inr batch \<Rightarrow>
                    if \<not> truthy batch then Some (Inr commits, w1)
                    else (case py_iter batch of
                            Inl e \<Rightarrow> Some (Inl e, w1)
                          | Inr items \<Rightarrow>
                              if length items < 100 then Some (Inr (commits @ items), w1)
                              else collect_commits_since_loop E commits_url since_iso (page + 1)
                                     (commits @ items) w1)))"

definition collect_commits_since ::
  "env \<Rightarrow> string \<Rightarrow> string \<Rightarrow> world \<Rightarrow> ((py_error + json list) \<times> world) option" where
  "collect_commits_since E commits_url since_iso w =
     collect_commits_since_loop E commits_url since_iso 1 [] w"

text \<open>The \<^verbatim>\<open>while True\<close> of \<^verbatim>\<open>_collect_all_commits\<close>.\<close>

partial_function (option) collect_all_commits_loop ::
  "env \<Rightarrow> string \<Rightarrow> int \<Rightarrow> json list \<Rightarrow> world \<Rightarrow> ((py_error + json list) \<times> world) option" where
  "collect_all_commits_loop E commits_url page commits w =
     (case safe_request E (all_page commits_url page) w of
        (Inl e, w1) \<Rightarrow> Some (Inl e, w1)
      | (Inr resp, w1) \<Rightarrow>
          if status_code resp \<noteq> 200 then Some (Inr commits, w1)
          else (case resp_json resp of
                  Inl e \<Rightarrow> Some (Inl e, w1)
                | Inr batch \<Rightarrow>
                    if \<not> truthy batch then Some (Inr commits, w1)
                    else (case py_iter batch of
                            Inl e \<Rightarrow> Some (Inl e, w1)
                          | Inr items \<Rightarrow>
                              if length items < 100 then Some (Inr (commits @ items), w1)
                              else collect_all_commits_loop E commits_url (page + 1)
                                     (commits @ items) w1)))"

definition collect_all_commits ::
  "env \<Rightarrow> string \<Rightarrow> world \<Rightarrow> ((py_error + json list) \<times> world) option" where
  "collect_all_commits E commits_url w = collect_all_commits_loop E commits_url 1 [] w"


definition last_page :: "response \<Rightarrow> json list \<Rightarrow> bool" where
  "last_page resp items =
     (if status_code resp \<noteq> 200 then items = []
      else (case body resp of
              None \<Rightarrow> False
            | Some b \<Rightarrow>
                if truthy b then py_iter b = Inr items \<and> length items < 100
                else items = []))"

section \<open>Issue search\<close>

definition search_url :: string where
  "search_url = ''https://api.github.com/search/issues''"

text \<open>\<^verbatim>\<open>_search_issues_count\<close>.\<close>

definition search_issues_count ::
  "env \<Rightarrow> string \<Rightarrow> string \<Rightarrow> string \<Rightarrow> world \<Rightarrow> (py_error + json) \<times> world" where
  "search_issues_count E owner repo q w =
     (let query = ''repo:'' @ owner @ ''/'' @ repo @ '' '' @ q
      in case safe_request E
                \<lparr>url = search_url, params = Some [(''q'', JStr query), (''per_page'', JInt 1)]\<rparr> w of
           (Inl e, w1) \<Rightarrow> (Inl e, w1)
         | (Inr resp, w1) \<Rightarrow>
             if status_code resp \<noteq> 200 then (Inr JNone, w1)
             else (case resp_json resp of
                     Inl e \<Rightarrow> (Inl e, w1)
                   | Inr data \<Rightarrow> (dict_get data ''total_count'' JNone, w1)))"

definition closed_page :: "string \<Rightarrow> int \<Rightarrow> request" where
  "closed_page query page =
     \<lparr>url = search_url,
      params = Some [(''q'', JStr query), (''sort'', JStr ''updated''), (''order'', JStr ''desc''),
                     (''per_page'', JInt 100), (''page'', JInt page)]\<rparr>"

text \<open>The \<^verbatim>\<open>while True\<close> of \<^verbatim>\<open>_fetch_closed_issues_for_average\<close>: it stops at
  page 10 at the latest.\<close>

function fetch_closed_loop ::
  "env \<Rightarrow> string \<Rightarrow> int \<Rightarrow> json list \<Rightarrow> world \<Rightarrow> (py_error + json list) \<times> world" where
  "fetch_closed_loop E query page results w =
     (case safe_request E (closed_page query page) w of
        (Inl e, w1) \<Rightarrow> (Inl e, w1)
      | (Inr resp, w1) \<Rightarrow>
          if status_code resp \<noteq> 200 then (Inr results, w1)
          else (case resp_json resp of
                  Inl e \<Rightarrow> (Inl e, w1)
                | Inr data \<Rightarrow>
                    (case dict_get data ''items'' (JList []) of
                       Inl e \<Rightarrow> (Inl e, w1)
                     | Inr items \<Rightarrow>
                         if \<not> truthy items then (Inr results, w1)
                         else (case py_iter items of
                                 Inl e \<Rightarrow> (Inl e, w1)
                               | Inr its \<Rightarrow>
                                   if length its < 100 \<or> page \<ge> 10
                                   then (Inr (results @ its), w1)
                                   else fetch_closed_loop E query (page + 1) (results @ its) w1))))"
  by pat_completeness auto
termination
  by (relation "measure (\<lambda>(E, query, page, results, w). nat (10 - page))") auto

declare fetch_closed_loop.simps [simp del]

definition fetch_closed_issues_for_average ::
  "env \<Rightarrow> string \<Rightarrow> string \<Rightarrow> string \<Rightarrow> world \<Rightarrow> (py_error + json list) \<times> world" where
  "fetch_closed_issues_for_average E owner repo closed_since_iso w =
     (let query = ''repo:'' @ owner @ ''/'' @ repo @ '' type:issue is:closed closed:>=''
                    @ takeWhile (\<lambda>c. c \<noteq> CHR ''T'') closed_since_iso
      in fetch_closed_loop E query 1 [] w)"

section \<open>Dates and durations\<close>

text \<open>An aware datetime in UTC at an instant, as \<^verbatim>\<open>datetime.now(timezone.utc)\<close>
  and what is computed from it.\<close>

definition utc_datetime :: "env \<Rightarrow> int \<Rightarrow> datetime" where
  "utc_datetime E t = \<lparr>aware = True, instant = t, date_iso = date_isoformat E t\<rparr>"

definition datetime_now :: "env \<Rightarrow> world \<Rightarrow> datetime \<times> world" where
  "datetime_now E w = (case read_clock E w of (t, w1) \<Rightarrow> (utc_datetime E t, w1))"


text \<open>\<^verbatim>\<open>a >= b\<close> and \<^verbatim>\<open>a - b\<close> raise \<^verbatim>\<open>TypeError\<close> between a naive and an
  aware datetime.\<close>

definition dt_ge :: "datetime \<Rightarrow> datetime \<Rightarrow> py_error + bool" where
  "dt_ge a b = (if aware a = aware b then Inr (instant b \<le> instant a) else Inl TypeError)"

definition dt_sub :: "datetime \<Rightarrow> datetime \<Rightarrow> py_error + int" where
  "dt_sub a b = (if aware a = aware b then Inr (instant a - instant b) else Inl TypeError)"

text \<open>\<^verbatim>\<open>timedelta.days\<close> (rounded down) and
  \<^verbatim>\<open>timedelta.total_seconds() / 86400.0\<close>.\<close>

definition td_days :: "int \<Rightarrow> int" where
  "td_days d = d div 86400000000"

definition td_days_float :: "env \<Rightarrow> int \<Rightarrow> rat" where
  "td_days_float E d = float_div E (total_seconds E d) 86400"

text \<open>\<^verbatim>\<open>datetime.fromisoformat(v.replace('Z', '+00:00'))\<close>: a value that is not a
  string has no \<^verbatim>\<open>replace\<close>.\<close>

fun parse_dt :: "env \<Rightarrow> json \<Rightarrow> py_error + datetime" where
  "parse_dt E (JStr s) =
     (case fromisoformat E (replace_Z s) of None \<Rightarrow> Inl ValueError | Some d \<Rightarrow> Inr d)"
| "parse_dt E v = Inl AttributeError"

section \<open>Python sets\<close>

text \<open>
  A \<^verbatim>\<open>set\<close> is kept as the list of its elements in iteration order. That order is
  the hash table's business: \<open>layout\<close> stands for it, rearranging the elements after
  each insertion. Numbers are equal across \<^verbatim>\<open>bool\<close>, \<^verbatim>\<open>int\<close> and
  \<^verbatim>\<open>float\<close>; lists and dicts are unhashable.
\<close>

fun hashable :: "json \<Rightarrow> bool" where
  "hashable (JList xs) = False"
| "hashable (JDict kvs) = False"
| "hashable v = True"

fun num_val :: "json \<Rightarrow> rat option" where
  "num_val (JBool b) = Some (if b then 1 else 0)"
| "num_val (JInt i) = Some (of_int i)"
| "num_val (JFloat r) = Some r"
| "num_val v = None"

definition py_eq :: "json \<Rightarrow> json \<Rightarrow> bool" where
  "py_eq a b =
     (case (num_val a, num_val b) of
        (Some x, Some y) \<Rightarrow> x = y
      | (None, None) \<Rightarrow> a = b
      | _ \<Rightarrow> False)"

definition set_add :: "(json list \<Rightarrow> json list) \<Rightarrow> json \<Rightarrow> json list \<Rightarrow> py_error + json list" where
  "set_add layout x s =
     (if \<not> hashable x then Inl TypeError
      else if \<exists>y \<in> set s. py_eq x y then Inr s
      else Inr (layout (x # s)))"

section \<open>Window aggregation\<close>

text \<open>
  The loop over \<^verbatim>\<open>recent_commits\<close> in \<^verbatim>\<open>get_gh_data\<close>, with the running
  \<^verbatim>\<open>commits_last_6m\<close> and \<^verbatim>\<open>unique_commit_days\<close>.
\<close>

fun window_loop ::
  "env \<Rightarrow> (json list \<Rightarrow> json list) \<Rightarrow> datetime \<Rightarrow> json list \<Rightarrow> int \<Rightarrow> json list
     \<Rightarrow> py_error + (int \<times> json list)" where
  "window_loop E layout six_months_ago [] commits_last_6m unique_commit_days =
     Inr (commits_last_6m, unique_commit_days)"
| "window_loop E layout six_months_ago (c # cs) commits_last_6m unique_commit_days =
     (case committer_field c ''date'' of
        Inl e \<Rightarrow> Inl e
      | Inr date_str \<Rightarrow>
          if \<not> truthy date_str
          then window_loop E layout six_months_ago cs commits_last_6m unique_commit_days
          else (case parse_dt E date_str of
                  Inl e \<Rightarrow>
                    if e = ValueError
                    then window_loop E layout six_months_ago cs commits_last_6m unique_commit_days
                    else Inl e
                | Inr dt \<Rightarrow>
                    (case dt_ge dt six_months_ago of
                       Inl e \<Rightarrow> Inl e
                     | Inr ge \<Rightarrow>
                         if ge then
                           (case set_add layout (JStr (date_iso dt)) unique_commit_days of
                              Inl e \<Rightarrow> Inl e
                            | Inr days \<Rightarrow>
                                window_loop E layout six_months_ago cs (commits_last_6m + 1) days)
                         else window_loop E layout six_months_ago cs commits_last_6m
                                unique_commit_days)))"

text \<open>The identity of a commit: author login, committer login, committer email,
  \<^verbatim>\<open>'unknown'\<close>.\<close>

definition login_of :: "json \<Rightarrow> string \<Rightarrow> py_error + json" where
  "login_of c who =
     (case dict_get c who JNone of
        Inl e \<Rightarrow> Inl e
      | Inr a \<Rightarrow> dict_get (py_or a (JDict [])) ''login'' JNone)"

definition resolve_login :: "json \<Rightarrow> py_error + json" where
  "resolve_login c =
     (case login_of c ''author'' of
        Inl e \<Rightarrow> Inl e
      | Inr l1 \<Rightarrow>
          (case (if truthy l1 then Inr l1 else login_of c ''committer'') of
             Inl e \<Rightarrow> Inl e
           | Inr login \<Rightarrow>
               if truthy login then Inr login
               else (case committer_field c ''email'' of
                       Inl e \<Rightarrow> Inl e
                     | Inr email \<Rightarrow> Inr (py_or email (JStr ''unknown'')))))"

text \<open>The loop over \<^verbatim>\<open>all_commits\<close>, with the running \<^verbatim>\<open>unique_committers\<close>.\<close>

fun committers_loop ::
  "(json list \<Rightarrow> json list) \<Rightarrow> json list \<Rightarrow> json list \<Rightarrow> py_error + json list" where
  "committers_loop layout [] unique_committers = Inr unique_committers"
| "committers_loop layout (c # cs) unique_committers =
     (case resolve_login c of
        Inl e \<Rightarrow> Inl e
      | Inr login \<Rightarrow>
          (case set_add layout login unique_committers of
             Inl e \<Rightarrow> Inl e
           | Inr s \<Rightarrow> committers_loop layout cs s))"

text \<open>
  The body of the loop over \<^verbatim>\<open>closed_recent_items\<close> for one item:
  \<open>Inr (Some d)\<close> when \<open>d\<close> is appended to \<^verbatim>\<open>close_deltas\<close>, \<open>Inr None\<close>
  when the item is passed over, \<open>Inl e\<close> when it raises.
\<close>

definition item_delta :: "env \<Rightarrow> datetime \<Rightarrow> json \<Rightarrow> py_error + rat option" where
  "item_delta E six_months_ago it =
     (case dict_get it ''created_at'' JNone of
        Inl e \<Rightarrow> Inl e
      | Inr created \<Rightarrow>
          (case dict_get it ''closed_at'' JNone of
             Inl e \<Rightarrow> Inl e
           | Inr closed_at \<Rightarrow>
               if \<not> truthy created \<or> \<not> truthy closed_at then Inr None
               else (case parse_dt E created of
                       Inl e \<Rightarrow> if e = ValueError then Inr None else Inl e
                     | Inr cdt \<Rightarrow>
                         (case parse_dt E closed_at of
                            Inl e \<Rightarrow> if e = ValueError then Inr None else Inl e
                          | Inr xdt \<Rightarrow>
                              (case dt_ge xdt six_months_ago of
                                 Inl e \<Rightarrow> Inl e
                               | Inr ge \<Rightarrow>
                                   if ge then
                                     (case dt_sub xdt cdt of
                                        Inl e \<Rightarrow> Inl e
                                      | Inr d \<Rightarrow>
                                          if 0 \<le> td_days_float E d
                                          then Inr (Some (td_days_float E d))
                                          else Inr None)
                                   else Inr None)))))"

text \<open>The loop over \<^verbatim>\<open>closed_recent_items\<close>, with the running
  \<^verbatim>\<open>close_deltas\<close>.\<close>

fun close_deltas_loop :: "env \<Rightarrow> datetime \<Rightarrow> json list \<Rightarrow> rat list \<Rightarrow> py_error + rat list" where
  "close_deltas_loop E six_months_ago [] close_deltas = Inr close_deltas"
| "close_deltas_loop E six_months_ago (it # its) close_deltas =
     (case item_delta E six_months_ago it of
        Inl e \<Rightarrow> Inl e
      | Inr None \<Rightarrow> close_deltas_loop E six_months_ago its close_deltas
      | Inr (Some d) \<Rightarrow> close_deltas_loop E six_months_ago its (close_deltas @ [d]))"

text \<open>\<^verbatim>\<open>round(sum(close_deltas) / len(close_deltas), 2) if close_deltas else None\<close>.\<close>

definition avg_issue_close_time_days :: "env \<Rightarrow> rat list \<Rightarrow> json" where
  "avg_issue_close_time_days E close_deltas =
     (if close_deltas \<noteq> []
      then JFloat (round2 E (float_div E (float_sum E close_deltas)
                               (of_nat (length close_deltas))))
      else JNone)"

text \<open>
  \<^verbatim>\<open>repo_age_days\<close> and \<^verbatim>\<open>days_of_activity\<close>: the \<^verbatim>\<open>try\<close> that parses
  \<^verbatim>\<open>created_at\<close> and \<^verbatim>\<open>latest_commit_date\<close>, and its
  \<^verbatim>\<open>except ValueError\<close>.
\<close>

definition repo_age ::
  "env \<Rightarrow> json \<Rightarrow> json \<Rightarrow> world \<Rightarrow> (py_error + json \<times> json) \<times> world" where
  "repo_age E created_at latest_commit_date w =
     (if \<not> truthy created_at then (Inr (JNone, JNone), w)
      else (case parse_dt E created_at of
              Inl e \<Rightarrow> if e = ValueError then (Inr (JNone, JNone), w) else (Inl e, w)
            | Inr created_dt \<Rightarrow>
                (case datetime_now E w of
                   (now, w1) \<Rightarrow>
                     (case dt_sub now created_dt of
                        Inl e \<Rightarrow> (Inl e, w1)
                      | Inr d \<Rightarrow>
                          if \<not> truthy latest_commit_date
                          then (Inr (JInt (td_days d), JNone), w1)
                          else (case parse_dt E latest_commit_date of
                                  Inl e \<Rightarrow>
                                    if e = ValueError then (Inr (JNone, JNone), w1)
                                    else (Inl e, w1)
                                | Inr latest_commit_dt \<Rightarrow>
                                    (case dt_sub latest_commit_dt created_dt of
                                       Inl e \<Rightarrow> (Inl e, w1)
                                     | Inr d2 \<Rightarrow>
                                         (Inr (JInt (td_days d), JInt (td_days d2)), w1)))))))"

section \<open>The emitted record\<close>

text \<open>\<^verbatim>\<open>a | b\<close> on dicts: the keys of \<open>a\<close> in their order, with the values of
  \<open>b\<close> where it has the key, then the new keys of \<open>b\<close>.\<close>

definition dict_union :: "(string \<times> json) list \<Rightarrow> (string \<times> json) list \<Rightarrow> (string \<times> json) list" where
  "dict_union a b =
     map (\<lambda>kv. (fst kv, lookup b (fst kv) (snd kv))) a
       @ filter (\<lambda>kv. fst kv \<notin> fst ` set a) b"

text \<open>\<^verbatim>\<open>x if x is not None else y\<close>.\<close>

definition if_not_none :: "json \<Rightarrow> json \<Rightarrow> json" where
  "if_not_none x y = (if x \<noteq> JNone then x else y)"

text \<open>The values computed for one repository, named as the local variables of
  \<^verbatim>\<open>get_gh_data\<close> are.\<close>

record metrics =
  repo_info :: "(string \<times> json) list"
  total_commits :: json
  latest_commit_date :: json
  commits_last_6m :: int
  unique_committers :: "json list"
  total_issues :: json
  open_issues :: json
  closed_issues :: json
  issues_opened_last_6m :: json
  avg_close :: json
  created_at :: json
  repo_age_days :: json
  days_of_activity :: json

text \<open>The dict appended to \<^verbatim>\<open>repo_data\<close>.\<close>

definition emit_record :: "(string \<times> json) list \<Rightarrow> metrics \<Rightarrow> (string \<times> json) list" where
  "emit_record row m =
     dict_union row
       [(''language'', lookup (repo_info m) ''language'' JNone),
        (''createdAt'', created_at m),
        (''repoAge'', repo_age_days m),
        (''forks'', lookup (repo_info m) ''forks_count'' JNone),
        (''watchers'', lookup (repo_info m) ''watchers_count'' JNone),
        (''stars'', lookup (repo_info m) ''stargazers_count'' JNone),
        (''openIssues'',
           if_not_none (open_issues m) (lookup (repo_info m) ''open_issues_count'' JNone)),
        (''closedIssues'', if_not_none (closed_issues m) (JInt 0)),
        (''totalIssues'', if_not_none (total_issues m) (JInt 0)),
        (''issuesOpenedLast6Months'', if_not_none (issues_opened_last_6m m) (JInt 0)),
        (''AvgIssueCloseTime'', if_not_none (avg_close m) (JInt 0)),
        (''commits'', total_commits m),
        (''dateOfLastCommit'', latest_commit_date m),
        (''daysOfActivity'', days_of_activity m),
        (''commitsInLast6Months'', JInt (commits_last_6m m)),
        (''committersParticipation'',
           if unique_committers m \<noteq> [] then JInt (int (length (unique_committers m)))
           else JInt 0)]"

section \<open>One repository\<close>

text \<open>
  \<^verbatim>\<open>re.compile(r'github\.com/([^/]+)/([^/]+)').search(s)\<close>: the leftmost place where
  \<^verbatim>\<open>github.com/\<close> is followed by a non-empty run without \<^verbatim>\<open>/\<close>, a
  \<^verbatim>\<open>/\<close>, and another such run; the groups are the two (longest) runs.
\<close>

definition match_here :: "string \<Rightarrow> (string \<times> string) option" where
  "match_here s =
     (if take 11 s = ''github.com/'' then
        (let rest = drop 11 s;
             owner = takeWhile (\<lambda>c. c \<noteq> CHR ''/'') rest
         in case dropWhile (\<lambda>c. c \<noteq> CHR ''/'') rest of
              [] \<Rightarrow> None
            | slash # rest2 \<Rightarrow>
                (let repo = takeWhile (\<lambda>c. c \<noteq> CHR ''/'') rest2
                 in if owner = [] \<or> repo = [] then None else Some (owner, repo)))
      else None)"

fun pattern_search :: "string \<Rightarrow> (string \<times> string) option" where
  "pattern_search [] = None"
| "pattern_search (c # cs) =
     (case match_here (c # cs) of
        Some m \<Rightarrow> Some m
      | None \<Rightarrow> pattern_search cs)"

text \<open>The commit part of the loop body of \<^verbatim>\<open>get_gh_data\<close>: \<^verbatim>\<open>total_commits\<close>,
  \<^verbatim>\<open>latest_commit_date\<close>, \<^verbatim>\<open>commits_last_6m\<close> and
  \<^verbatim>\<open>unique_committers\<close>.\<close>

definition commit_metrics ::
  "env \<Rightarrow> (json list \<Rightarrow> json list) \<Rightarrow> datetime \<Rightarrow> string \<Rightarrow> world
     \<Rightarrow> ((py_error + json \<times> json \<times> int \<times> json list) \<times> world) option" where
  "commit_metrics E layout six_months_ago commits_api w =
     (case get_total_commits_count E commits_api w of
        (Inl e, w1) \<Rightarrow> Some (Inl e, w1)
      | (Inr tot, w1) \<Rightarrow>
          (case get_latest_commit_date E commits_api w1 of
             (Inl e, w2) \<Rightarrow> Some (Inl e, w2)
           | (Inr latest, w2) \<Rightarrow>
               (case collect_commits_since E commits_api
                       (isoformat E (instant six_months_ago)) w2 of
                  None \<Rightarrow> None
                | Some (Inl e, w3) \<Rightarrow> Some (Inl e, w3)
                | Some (Inr recent_commits, w3) \<Rightarrow>
                    (case window_loop E layout six_months_ago recent_commits 0 [] of
                       Inl e \<Rightarrow> Some (Inl e, w3)
                     | Inr (in_window, days) \<Rightarrow>
                         (case collect_all_commits E commits_api w3 of
                            None \<Rightarrow> None
                          | Some (Inl e, w4) \<Rightarrow> Some (Inl e, w4)
                          | Some (Inr all_commits, w4) \<Rightarrow>
                              (case committers_loop layout all_commits [] of
                                 Inl e \<Rightarrow> Some (Inl e, w4)
                               | Inr committers \<Rightarrow>
                                   Some (Inr (tot, latest, in_window, committers), w4)))))))"

text \<open>The issue part: the four search counts and \<^verbatim>\<open>avg_issue_close_time_days\<close>.\<close>

definition issue_metrics ::
  "env \<Rightarrow> datetime \<Rightarrow> string \<Rightarrow> string \<Rightarrow> world
     \<Rightarrow> (py_error + json \<times> json \<times> json \<times> json \<times> json) \<times> world" where
  "issue_metrics E six_months_ago owner repo w =
     (case search_issues_count E owner repo ''type:issue'' w of
        (Inl e, w1) \<Rightarrow> (Inl e, w1)
      | (Inr tot, w1) \<Rightarrow>
          (case search_issues_count E owner repo ''type:issue state:open'' w1 of
             (Inl e, w2) \<Rightarrow> (Inl e, w2)
           | (Inr opn, w2) \<Rightarrow>
               (case search_issues_count E owner repo ''type:issue state:closed'' w2 of
                  (Inl e, w3) \<Rightarrow> (Inl e, w3)
                | (Inr cls, w3) \<Rightarrow>
                    (case search_issues_count E owner repo
                            (''type:issue created:>='' @ date_iso six_months_ago) w3 of
                       (Inl e, w4) \<Rightarrow> (Inl e, w4)
                     | (Inr opened, w4) \<Rightarrow>
                         (case fetch_closed_issues_for_average E owner repo
                                 (isoformat E (instant six_months_ago)) w4 of
                            (Inl e, w5) \<Rightarrow> (Inl e, w5)
                          | (Inr closed_recent_items, w5) \<Rightarrow>
                              (case close_deltas_loop E six_months_ago closed_recent_items [] of
                                 Inl e \<Rightarrow> (Inl e, w5)
                               | Inr close_deltas \<Rightarrow>
                                   (Inr (tot, opn, cls, opened,
                                         avg_issue_close_time_days E close_deltas), w5)))))))"

text \<open>
  The end of the loop body: \<^verbatim>\<open>created_at\<close>, \<^verbatim>\<open>repo_age_days\<close> and
  \<^verbatim>\<open>days_of_activity\<close> are computed and the record is built from them and from
  the values \<open>m\<close> holds already.
\<close>

definition finish_row ::
  "env \<Rightarrow> (string \<times> json) list \<Rightarrow> metrics \<Rightarrow> world
     \<Rightarrow> (py_error + (string \<times> json) list) \<times> world" where
  "finish_row E row m w =
     (let created = lookup (repo_info m) ''created_at'' JNone
      in case repo_age E created (latest_commit_date m) w of
           (Inl e, w1) \<Rightarrow> (Inl e, w1)
         | (Inr (age, activity), w1) \<Rightarrow>
             (Inr (emit_record row
                     (m\<lparr>created_at := created, repo_age_days := age,
                        days_of_activity := activity\<rparr>)), w1))"

text \<open>
  The body of \<^verbatim>\<open>for _, row in df.iterrows()\<close>. The result is \<open>Inr None\<close> where
  the source says \<^verbatim>\<open>continue\<close> before anything is appended, and \<open>Inr (Some r)\<close>
  where \<open>r\<close> is appended to \<^verbatim>\<open>repo_data\<close>.
\<close>

definition process_row ::
  "env \<Rightarrow> (json list \<Rightarrow> json list) \<Rightarrow> datetime \<Rightarrow> (string \<times> json) list \<Rightarrow> world
     \<Rightarrow> ((py_error + (string \<times> json) list option) \<times> world) option" where
  "process_row E layout six_months_ago row w =
     (case lookup row ''Github_links'' JNone of
        JStr github_url \<Rightarrow>
          (case pattern_search github_url of
             None \<Rightarrow> Some (Inr None, w)
           | Some (owner, repo) \<Rightarrow>
               (let repo_api = ''https://api.github.com/repos/'' @ owner @ ''/'' @ repo;
                    commits_api = repo_api @ ''/commits''
                in case safe_request E \<lparr>url = repo_api, params = None\<rparr> w of
                     (Inl e, w1) \<Rightarrow> Some (Inl e, w1)
                   | (Inr repo_resp, w1) \<Rightarrow>
                       if status_code repo_resp \<noteq> 200 then Some (Inr None, w1)
                       else (case resp_json repo_resp of
                               Inl e \<Rightarrow> Some (Inl e, w1)
                             | Inr info \<Rightarrow>
                                 (case commit_metrics E layout six_months_ago commits_api w1 of
                                    None \<Rightarrow> None
                                  | Some (Inl e, w2) \<Rightarrow> Some (Inl e, w2)
                                  | Some (Inr (tot, latest, in_window, committers), w2) \<Rightarrow>
                                      (case issue_metrics E six_months_ago owner repo w2 of
                                         (Inl e, w3) \<Rightarrow> Some (Inl e, w3)
                                       | (Inr (itot, opn, cls, opened, avg), w3) \<Rightarrow>
                                           (case info of
                                              JDict kvs \<Rightarrow>
                                                (case finish_row E row
                                                        \<lparr>repo_info = kvs,
                                                         total_commits = tot,
                                                         latest_commit_date = latest,
                                                         commits_last_6m = in_window,
                                                         unique_committers = committers,
                                                         total_issues = itot,
                                                         open_issues = opn,
                                                         closed_issues = cls,
                                                         issues_opened_last_6m = opened,
                                                         avg_close = avg,
                                                         created_at = JNone,
                                                         repo_age_days = JNone,
                                                         days_of_activity = JNone\<rparr> w3 of
                                                   (Inl e, w4) \<Rightarrow> Some (Inl e, w4)
                                                 | (Inr r, w4) \<Rightarrow> Some (Inr (Some r), w4))
                                            | _ \<Rightarrow> Some (Inl AttributeError, w3)))))))
      | _ \<Rightarrow> Some (Inr None, w))"

section \<open>The run\<close>

text \<open>The loop over the rows of the input table, with the running \<^verbatim>\<open>repo_data\<close>.\<close>

fun rows_loop ::
  "env \<Rightarrow> (json list \<Rightarrow> json list) \<Rightarrow> datetime \<Rightarrow> (string \<times> json) list list
     \<Rightarrow> (string \<times> json) list list \<Rightarrow> world
     \<Rightarrow> ((py_error + (string \<times> json) list list) \<times> world) option" where
  "rows_loop E layout six_months_ago [] repo_data w = Some (Inr repo_data, w)"
| "rows_loop E layout six_months_ago (row # rows) repo_data w =
     (case process_row E layout six_months_ago row w of
        None \<Rightarrow> None
      | Some (Inl e, w1) \<Rightarrow> Some (Inl e, w1)
      | Some (Inr None, w1) \<Rightarrow> rows_loop E layout six_months_ago rows repo_data w1
      | Some (Inr (Some r), w1) \<Rightarrow>
          rows_loop E layout six_months_ago rows (repo_data @ [r]) w1)"


section \<open>Test doubles\<close>

text \<open>Concrete servers, clocks and inputs on which the theorems below are instantiated.\<close>

definition world0 :: world where
  "world0 = \<lparr>calls = 0, ticks = 0, trace = []\<rparr>"

definition reply :: "int \<Rightarrow> json option \<Rightarrow> response" where
  "reply code b = \<lparr>status_code = code, headers = (\<lambda>h. None), body = b\<rparr>"

definition rate_limited :: response where
  "rate_limited =
     \<lparr>status_code = 403,
      headers = map_of [(''X-RateLimit-Remaining'', ''0''), (''X-RateLimit-Reset'', ''1793836805'')],
      body = None\<rparr>"

definition utc :: "int \<Rightarrow> string \<Rightarrow> datetime" where
  "utc seconds day = \<lparr>aware = True, instant = seconds * 1000000, date_iso = day\<rparr>"

definition known_dates :: "(string \<times> datetime) list" where
  "known_dates =
     [(''2020-01-01T00:00:00+00:00'', utc 1577836800 ''2020-01-01''),
      (''2026-10-01T00:00:00+00:00'', utc 1790812800 ''2026-10-01''),
      (''2026-10-03T00:00:00+00:00'', utc 1790985600 ''2026-10-03''),
      (''2026-10-10T00:00:00+00:00'', utc 1791590400 ''2026-10-10''),
      (''2026-10-14T00:00:00+00:00'', utc 1791936000 ''2026-10-14'')]"

text \<open>
  The clock stands at 2026-11-05T00:00:00Z, so the window starts at 2026-05-09T00:00:00Z.
  The numbers of the examples are small integers: their sums and quotients are exact in
  floating point too, and rounding to two decimals leaves them as they are.
\<close>

definition test_env :: "(nat \<Rightarrow> request \<Rightarrow> outcome) \<Rightarrow> env" where
  "test_env server =
     \<lparr>net = server,
      clock = (\<lambda>n. 1793836800000000),
      py_int = map_of [(''1793836805'', 1793836805)],
      fromisoformat = map_of known_dates,
      isoformat = (\<lambda>t. if t = 1778284800000000 then ''2026-05-09T00:00:00+00:00''
                          else ''2026-11-05T00:00:00+00:00''),
      date_isoformat = (\<lambda>t. if t = 1778284800000000 then ''2026-05-09'' else ''2026-11-05''),
      query_page = (\<lambda>u. None),
      float_div = (\<lambda>x y. x / y),
      float_sum = sum_list,
      round2 = (\<lambda>x. x),
      total_seconds = (\<lambda>d. of_int d / 1000000)\<rparr>"


definition rq0 :: request where
  "rq0 = \<lparr>url = ''https://api.github.com/repos/octo/game'', params = None\<rparr>"

definition always_down :: "nat \<Rightarrow> request \<Rightarrow> outcome" where
  "always_down n rq = RequestException"

definition always_forbidden :: "nat \<Rightarrow> request \<Rightarrow> outcome" where
  "always_forbidden n rq = Response (reply 403 None)"

definition limited_once :: "nat \<Rightarrow> request \<Rightarrow> outcome" where
  "limited_once n rq =
     (if n = 0 then Response rate_limited else Response (reply 200 (Some (JDict []))))"



definition always_limited :: "nat \<Rightarrow> request \<Rightarrow> outcome" where
  "always_limited n rq = Response rate_limited"

definition issue :: "string \<Rightarrow> string \<Rightarrow> json" where
  "issue c x = JDict [(''created_at'', JStr c), (''closed_at'', JStr x)]"















section \<open>The request executor: properties\<close>

lemma five_attempts: "(5::nat) = Suc (Suc (Suc (Suc (Suc 0))))"
  by simp

lemma four_attempts: "(4::nat) = Suc (Suc (Suc (Suc 0)))"
  by simp

lemma time_sleep_in_range:
  "d * 1000000000 \<le> 9223372036854775807 \<Longrightarrow>
   time_sleep d w = (Inr (), w\<lparr>trace := trace w @ [Sleep d]\<rparr>)"
  by (simp add: time_sleep_def)

lemma time_sleep_fixed:
  "time_sleep (3 / 2) w = (Inr (), w\<lparr>trace := trace w @ [Sleep (3 / 2)]\<rparr>)"
  by (simp add: time_sleep_def)


lemma respect_rate_limit_plain:
  assumes "status_code r = 403"
    and "headers r ''X-RateLimit-Remaining'' \<noteq> Some ''0''
         \<or> headers r ''X-RateLimit-Reset'' = None
         \<or> headers r ''X-RateLimit-Reset'' = Some []"
  shows "respect_rate_limit E r w = (Inr (), w)"
  using assms by (auto simp: respect_rate_limit_def split: option.splits)

lemma respect_rate_limit_wait:
  assumes "status_code r = 403"
    and "headers r ''X-RateLimit-Remaining'' = Some ''0''"
    and "headers r ''X-RateLimit-Reset'' = Some reset" and "reset \<noteq> []"
    and "py_int E reset = Some reset_ts"
    and "wait = max 0 (reset_ts - whole_seconds (clock E (ticks w))) + 1"
    and "wait \<le> 9223372036"
  shows "respect_rate_limit E r w =
     (Inr (), w\<lparr>ticks := Suc (ticks w), trace := trace w @ [Sleep (of_int wait)]\<rparr>)"
proof -
  from assms(7) have "wait * 1000000000 \<le> 9223372036854775807" by simp
  then have "(of_int (wait * 1000000000) :: rat) \<le> of_int 9223372036854775807"
    by (simp only: of_int_le_iff)
  then have "(of_int wait :: rat) * 1000000000 \<le> 9223372036854775807" by simp
  then have "time_sleep (of_int wait) v = (Inr (), v\<lparr>trace := trace v @ [Sleep (of_int wait)]\<rparr>)"
    for v by (rule time_sleep_in_range)
  with assms(1-6) show ?thesis
    by (simp add: respect_rate_limit_def read_clock_def)
qed

text \<open>When every remaining attempt raises, the loop ends with \<open>resp\<close> as it was.\<close>

lemma all_raise_loop:
  "\<forall>i<n. net E (calls w + i) rq = RequestException \<Longrightarrow>
   safe_request_loop E rq n resp w =
     ((case resp of None \<Rightarrow> Inl UnboundLocalError | Some r \<Rightarrow> Inr r),
      w\<lparr>calls := calls w + n,
        trace := trace w @ concat (replicate n [Get rq, Sleep (3 / 2)])\<rparr>)"
proof (induction n arbitrary: w)
  case 0
  then show ?case by (simp split: option.splits)
next
  case (Suc n)
  from Suc.prems have first: "net E (calls w) rq = RequestException"
    by (metis add.right_neutral zero_less_Suc)
  let ?w1 = "w\<lparr>calls := Suc (calls w), trace := trace w @ [Get rq, Sleep (3 / 2)]\<rparr>"
  have rest: "\<forall>i<n. net E (calls ?w1 + i) rq = RequestException"
  proof (intro allI impI)
    fix i assume "i < n"
    then have "Suc i < Suc n" by simp
    with Suc.prems have "net E (calls w + Suc i) rq = RequestException"
      by blast
    then show "net E (calls ?w1 + i) rq = RequestException"
      by simp
  qed
  have "safe_request_loop E rq (Suc n) resp w = safe_request_loop E rq n resp ?w1"
    using first by (simp add: session_get_def time_sleep_fixed)
  also have "\<dots> = ((case resp of None \<Rightarrow> Inl UnboundLocalError | Some r \<Rightarrow> Inr r),
      ?w1\<lparr>calls := calls ?w1 + n,
        trace := trace ?w1 @ concat (replicate n [Get rq, Sleep (3 / 2)])\<rparr>)"
    by (rule Suc.IH [OF rest])
  also have "?w1\<lparr>calls := calls ?w1 + n,
        trace := trace ?w1 @ concat (replicate n [Get rq, Sleep (3 / 2)])\<rparr>
     = w\<lparr>calls := calls w + Suc n,
        trace := trace w @ concat (replicate (Suc n) [Get rq, Sleep (3 / 2)])\<rparr>"
    by simp
  finally show ?case .
qed

text \<open>
  C1. The claim is that the executor never raises and still returns a response when all
  five attempts raise a transport-level exception. The code does not: no attempt has then
  assigned \<^verbatim>\<open>resp\<close>, and \<^verbatim>\<open>return resp\<close> raises
  \<^verbatim>\<open>UnboundLocalError\<close>.
\<close>

theorem safe_request_unbound_when_every_attempt_raises:
  assumes "\<forall>i<5. net E (calls w + i) rq = RequestException"
  shows "fst (safe_request E rq w) = Inl UnboundLocalError"
  using all_raise_loop [OF assms, of None] by (simp add: safe_request_def)

theorem safe_request_unbound_witness:
  "fst (safe_request (test_env always_down) rq0 world0) = Inl UnboundLocalError"
  using safe_request_unbound_when_every_attempt_raises
    [where E = "test_env always_down" and w = world0 and rq = rq0]
  by (simp add: test_env_def always_down_def)

lemma respect_rate_limit_trace:
  "\<exists>rest. trace (snd (respect_rate_limit E r w)) = trace w @ rest \<and> sent rest = []"
  by (auto simp: respect_rate_limit_def read_clock_def time_sleep_def Let_def
      split: option.splits)

text \<open>The three ways an attempt leaves the loop with one attempt fewer.\<close>

lemma transport_failure_sleeps:
  assumes "net E (calls w) rq = RequestException"
  shows "safe_request_loop E rq (Suc n) resp w =
        safe_request_loop E rq n resp
          (w\<lparr>calls := Suc (calls w), trace := trace w @ [Get rq, Sleep (3 / 2)]\<rparr>)"
  using assms by (simp add: session_get_def time_sleep_fixed)

lemma failure_status_sleeps:
  assumes "net E (calls w) rq = Response r"
    and "status_code r \<noteq> 403" and "status_code r \<noteq> 200" and "status_code r \<noteq> 201"
  shows "safe_request_loop E rq (Suc n) resp w =
        safe_request_loop E rq n (Some r)
          (w\<lparr>calls := Suc (calls w), trace := trace w @ [Get rq, Sleep (3 / 2)]\<rparr>)"
  using assms by (simp add: session_get_def time_sleep_fixed)

lemma success_returns:
  assumes "net E (calls w) rq = Response r"
    and "status_code r = 200 \<or> status_code r = 201"
  shows "safe_request_loop E rq (Suc n) resp w =
        (Inr r, w\<lparr>calls := Suc (calls w), trace := trace w @ [Get rq]\<rparr>)"
  using assms by (auto simp add: session_get_def)

text \<open>One attempt: it sends the request, and either ends the loop or leaves it with one
  attempt fewer.\<close>

lemma safe_request_loop_step:
  "\<exists>w' rest. trace w' = trace w @ Get rq # rest \<and> sent rest = [] \<and>
     ((\<exists>resp'. safe_request_loop E rq (Suc n) resp w = safe_request_loop E rq n resp' w')
      \<or> (\<exists>x. safe_request_loop E rq (Suc n) resp w = (x, w')))"
proof -
  let ?w1 = "w\<lparr>calls := Suc (calls w), trace := trace w @ [Get rq]\<rparr>"
  let ?w2 = "w\<lparr>calls := Suc (calls w), trace := trace w @ [Get rq, Sleep (3 / 2)]\<rparr>"
  have t2: "trace ?w2 = trace w @ Get rq # [Sleep (3 / 2)] \<and> sent [Sleep (3 / 2)] = []"
    by simp
  show ?thesis
  proof (cases "net E (calls w) rq")
    case RequestException
    then have "safe_request_loop E rq (Suc n) resp w = safe_request_loop E rq n resp ?w2"
      by (rule transport_failure_sleeps)
    with t2 show ?thesis by blast
  next
    case (Response r)
    show ?thesis
    proof (cases "status_code r = 403")
      case True
      obtain res w2 where rrl: "respect_rate_limit E r ?w1 = (res, w2)"
        by (cases "respect_rate_limit E r ?w1")
      obtain rest1 where "trace w2 = trace ?w1 @ rest1" and "sent rest1 = []"
        using respect_rate_limit_trace [of E r ?w1] rrl by auto
      then have w2: "trace w2 = trace w @ Get rq # rest1 \<and> sent rest1 = []" by simp
      show ?thesis
      proof (cases res)
        case (Inl e)
        with Response True rrl have "safe_request_loop E rq (Suc n) resp w = (Inl e, w2)"
          by (simp add: session_get_def)
        with w2 show ?thesis by blast
      next
        case (Inr u)
        with Response True rrl have "safe_request_loop E rq (Suc n) resp w
            = safe_request_loop E rq n (Some r) w2"
          by (simp add: session_get_def)
        with w2 show ?thesis by blast
      qed
    next
      case False
      show ?thesis
      proof (cases "status_code r = 200 \<or> status_code r = 201")
        case True
        with Response have "safe_request_loop E rq (Suc n) resp w = (Inr r, ?w1)"
          by (intro success_returns)
        moreover have "trace ?w1 = trace w @ Get rq # [] \<and> sent [] = []" by simp
        ultimately show ?thesis by blast
      next
        case ok: False
        with Response False have "safe_request_loop E rq (Suc n) resp w
            = safe_request_loop E rq n (Some r) ?w2"
          by (intro failure_status_sleeps) auto
        with t2 show ?thesis by blast
      qed
    qed
  qed
qed

lemma safe_request_loop_trace:
  "\<exists>rest. trace (snd (safe_request_loop E rq n resp w)) = trace w @ rest"
proof (induction n arbitrary: resp w)
  case 0
  then show ?case by (simp split: option.splits)
next
  case (Suc n)
  obtain w' rest where t: "trace w' = trace w @ Get rq # rest" and "sent rest = []"
    and alt: "(\<exists>resp'. safe_request_loop E rq (Suc n) resp w = safe_request_loop E rq n resp' w')
      \<or> (\<exists>x. safe_request_loop E rq (Suc n) resp w = (x, w'))"
    using safe_request_loop_step [of w rq E n resp] by blast
  from alt show ?case
  proof
    assume "\<exists>resp'. safe_request_loop E rq (Suc n) resp w = safe_request_loop E rq n resp' w'"
    then obtain resp' where
      eq: "safe_request_loop E rq (Suc n) resp w = safe_request_loop E rq n resp' w'" ..
    obtain rest' where "trace (snd (safe_request_loop E rq n resp' w')) = trace w' @ rest'"
      using Suc.IH by blast
    with eq t show ?thesis by simp
  next
    assume "\<exists>x. safe_request_loop E rq (Suc n) resp w = (x, w')"
    with t show ?thesis by auto
  qed
qed

lemma safe_request_loop_first_get:
  "\<exists>rest. trace (snd (safe_request_loop E rq (Suc n) resp w)) = trace w @ Get rq # rest"
proof -
  obtain w' rest where t: "trace w' = trace w @ Get rq # rest" and "sent rest = []"
    and alt: "(\<exists>resp'. safe_request_loop E rq (Suc n) resp w = safe_request_loop E rq n resp' w')
      \<or> (\<exists>x. safe_request_loop E rq (Suc n) resp w = (x, w'))"
    using safe_request_loop_step [of w rq E n resp] by blast
  from alt show ?thesis
  proof
    assume "\<exists>resp'. safe_request_loop E rq (Suc n) resp w = safe_request_loop E rq n resp' w'"
    then obtain resp' where
      eq: "safe_request_loop E rq (Suc n) resp w = safe_request_loop E rq n resp' w'" ..
    obtain rest' where "trace (snd (safe_request_loop E rq n resp' w')) = trace w' @ rest'"
      using safe_request_loop_trace by blast
    with eq t show ?thesis by simp
  next
    assume "\<exists>x. safe_request_loop E rq (Suc n) resp w = (x, w')"
    with t show ?thesis by auto
  qed
qed

text \<open>
  C5. The claim is that after a 403 response that is not a rate-limit condition the
  executor sleeps the fixed 1.5 seconds before its next attempt, as it does after a
  transport-level failure. It does not: \<^verbatim>\<open>continue\<close> skips the sleep. On five
  such responses the executor sends five requests and never sleeps.
\<close>

theorem plain_403_counterexample:
  "safe_request (test_env always_forbidden) rq0 world0 =
     (Inr (reply 403 None),
      \<lparr>calls = 5, ticks = 0, trace = [Get rq0, Get rq0, Get rq0, Get rq0, Get rq0]\<rparr>)"
  by (simp add: safe_request_def five_attempts session_get_def respect_rate_limit_def
      test_env_def always_forbidden_def reply_def world0_def)

text \<open>
  C5, as amended: an attempt that receives a 403 response which is not a rate-limit
  condition (remaining-quota header not \<^verbatim>\<open>'0'\<close>, or reset header absent) is followed
  by no sleep at all: the loop goes on with one attempt fewer from a state that differs
  only by the request sent, so that the next event, if an attempt is left, is the same
  request again. The fixed sleep of 1.5 seconds follows a transport-level failure and a
  response whose status is none of 200, 201 and 403.
\<close>

theorem plain_403_retries_without_sleeping:
  assumes "net E (calls w) rq = Response r"
    and "status_code r = 403"
    and "headers r ''X-RateLimit-Remaining'' \<noteq> Some ''0''
         \<or> headers r ''X-RateLimit-Reset'' = None"
  shows "safe_request_loop E rq (Suc n) resp w =
           safe_request_loop E rq n (Some r)
             (w\<lparr>calls := Suc (calls w), trace := trace w @ [Get rq]\<rparr>)
     \<and> (0 < n \<longrightarrow> (\<exists>rest. trace (snd (safe_request_loop E rq (Suc n) resp w))
                              = trace w @ [Get rq, Get rq] @ rest))
     \<and> (\<forall>v old. net E (calls v) rq = RequestException \<longrightarrow>
           safe_request_loop E rq (Suc n) old v =
             safe_request_loop E rq n old
               (v\<lparr>calls := Suc (calls v), trace := trace v @ [Get rq, Sleep (3 / 2)]\<rparr>))
     \<and> (\<forall>v old r'. net E (calls v) rq = Response r' \<and> status_code r' \<noteq> 403
             \<and> status_code r' \<noteq> 200 \<and> status_code r' \<noteq> 201 \<longrightarrow>
           safe_request_loop E rq (Suc n) old v =
             safe_request_loop E rq n (Some r')
               (v\<lparr>calls := Suc (calls v), trace := trace v @ [Get rq, Sleep (3 / 2)]\<rparr>))"
proof -
  let ?w1 = "w\<lparr>calls := Suc (calls w), trace := trace w @ [Get rq]\<rparr>"
  from assms have "respect_rate_limit E r ?w1 = (Inr (), ?w1)"
    by (intro respect_rate_limit_plain) auto
  with assms have step: "safe_request_loop E rq (Suc n) resp w
      = safe_request_loop E rq n (Some r) ?w1"
    by (simp add: session_get_def)
  have "\<exists>rest. trace (snd (safe_request_loop E rq (Suc n) resp w))
          = trace w @ [Get rq, Get rq] @ rest" if "0 < n"
  proof -
    from that obtain m where "n = Suc m" by (cases n) auto
    then obtain rest where
      "trace (snd (safe_request_loop E rq n (Some r) ?w1)) = trace ?w1 @ Get rq # rest"
      using safe_request_loop_first_get by blast
    with step show ?thesis by simp
  qed
  with step transport_failure_sleeps failure_status_sleeps show ?thesis by blast
qed

theorem plain_403_witness:
  "safe_request_loop (test_env always_forbidden) rq0 (Suc 4) None world0 =
     safe_request_loop (test_env always_forbidden) rq0 4 (Some (reply 403 None))
       \<lparr>calls = 1, ticks = 0, trace = [Get rq0]\<rparr>"
proof -
  have hyps: "net (test_env always_forbidden) (calls world0) rq0 = Response (reply 403 None)"
    "status_code (reply 403 None) = 403"
    "headers (reply 403 None) ''X-RateLimit-Remaining'' \<noteq> Some ''0''
       \<or> headers (reply 403 None) ''X-RateLimit-Reset'' = None"
    by (simp_all add: test_env_def always_forbidden_def reply_def)
  have "safe_request_loop (test_env always_forbidden) rq0 (Suc 4) None world0 =
     safe_request_loop (test_env always_forbidden) rq0 4 (Some (reply 403 None))
       (world0\<lparr>calls := Suc (calls world0), trace := trace world0 @ [Get rq0]\<rparr>)"
    using plain_403_retries_without_sleeping [OF hyps, where n = 4 and resp = None]
    by (rule conjunct1)
  then show ?thesis by (simp add: world0_def)
qed

text \<open>
  C6. The claim is that every 403 response with remaining quota \<^verbatim>\<open>'0'\<close> and a
  reset timestamp is followed by the wait and then by a retry of the same request. The
  retry needs an attempt to be left: when the fifth attempt is rate-limited the executor
  waits and then returns that 403 response. A server that always answers so gets five
  requests, each followed by the wait, and no sixth.
\<close>

theorem rate_limited_403_counterexample:
  "safe_request (test_env always_limited) rq0 world0 =
     (Inr rate_limited,
      \<lparr>calls = 5, ticks = 5,
       trace = [Get rq0, Sleep 6, Get rq0, Sleep 6, Get rq0, Sleep 6, Get rq0, Sleep 6,
                Get rq0, Sleep 6]\<rparr>)"
  by (simp add: safe_request_def five_attempts session_get_def respect_rate_limit_def
      read_clock_def time_sleep_def whole_seconds_def
      test_env_def always_limited_def rate_limited_def world0_def)

text \<open>
  C6, as amended: an attempt that receives a 403 response with remaining quota
  \<^verbatim>\<open>'0'\<close> and a reset timestamp that \<^verbatim>\<open>int\<close> accepts sleeps exactly
  \<^verbatim>\<open>max(0, reset - now) + 1\<close> seconds, provided \<^verbatim>\<open>time.sleep\<close> accepts that
  many (at most 9223372036); that is at least 5 when the reset lies 5 seconds ahead. The
  loop goes on with one attempt fewer, as after any other failed attempt: if an attempt is
  left its next event is the same request again, and if none is left the executor returns
  this 403 response.
\<close>

theorem rate_limited_403_waits_then_retries:
  assumes "net E (calls w) rq = Response r"
    and "status_code r = 403"
    and "headers r ''X-RateLimit-Remaining'' = Some ''0''"
    and "headers r ''X-RateLimit-Reset'' = Some reset" and "reset \<noteq> []"
    and "py_int E reset = Some reset_ts"
    and "now = whole_seconds (clock E (ticks w))"
    and "wait = max 0 (reset_ts - now) + 1"
    and "wait \<le> 9223372036"
  shows "safe_request_loop E rq (Suc n) resp w =
           safe_request_loop E rq n (Some r)
             (w\<lparr>calls := Suc (calls w), ticks := Suc (ticks w),
                trace := trace w @ [Get rq, Sleep (of_int wait)]\<rparr>)
         \<and> (now + 5 \<le> reset_ts \<longrightarrow> 5 \<le> wait)
         \<and> (0 < n \<longrightarrow> (\<exists>rest. trace (snd (safe_request_loop E rq (Suc n) resp w))
                              = trace w @ [Get rq, Sleep (of_int wait), Get rq] @ rest))
         \<and> (n = 0 \<longrightarrow> safe_request_loop E rq (Suc n) resp w =
               (Inr r, w\<lparr>calls := Suc (calls w), ticks := Suc (ticks w),
                         trace := trace w @ [Get rq, Sleep (of_int wait)]\<rparr>))"
proof -
  let ?w1 = "w\<lparr>calls := Suc (calls w), trace := trace w @ [Get rq]\<rparr>"
  let ?w2 = "w\<lparr>calls := Suc (calls w), ticks := Suc (ticks w),
                trace := trace w @ [Get rq, Sleep (of_int wait)]\<rparr>"
  from assms(7,8) have "wait = max 0 (reset_ts - whole_seconds (clock E (ticks ?w1))) + 1"
    by simp
  from respect_rate_limit_wait [OF assms(2-6) this assms(9)]
  have "respect_rate_limit E r ?w1 = (Inr (), ?w2)" by simp
  with assms(1,2) have step:
    "safe_request_loop E rq (Suc n) resp w = safe_request_loop E rq n (Some r) ?w2"
    by (simp add: session_get_def)
  have long: "now + 5 \<le> reset_ts \<longrightarrow> 5 \<le> wait"
    using assms(8) by simp
  have retry: "\<exists>rest. trace (snd (safe_request_loop E rq (Suc n) resp w))
          = trace w @ [Get rq, Sleep (of_int wait), Get rq] @ rest" if "0 < n"
  proof -
    from that obtain m where "n = Suc m" by (cases n) auto
    then obtain rest where
      "trace (snd (safe_request_loop E rq n (Some r) ?w2)) = trace ?w2 @ Get rq # rest"
      using safe_request_loop_first_get by blast
    with step show ?thesis by simp
  qed
  have last: "safe_request_loop E rq (Suc n) resp w = (Inr r, ?w2)" if "n = 0"
    using step that by simp
  from step long retry last show ?thesis by blast
qed

theorem rate_limited_403_witness:
  "safe_request (test_env limited_once) rq0 world0 =
     (Inr (reply 200 (Some (JDict []))),
      \<lparr>calls = 2, ticks = 1, trace = [Get rq0, Sleep 6, Get rq0]\<rparr>)"
proof -
  have hyps: "net (test_env limited_once) (calls world0) rq0 = Response rate_limited"
    "status_code rate_limited = 403"
    "headers rate_limited ''X-RateLimit-Remaining'' = Some ''0''"
    "headers rate_limited ''X-RateLimit-Reset'' = Some ''1793836805''"
    "''1793836805'' \<noteq> []"
    "py_int (test_env limited_once) ''1793836805'' = Some 1793836805"
    "1793836800 = whole_seconds (clock (test_env limited_once) (ticks world0))"
    "(6::int) = max 0 (1793836805 - 1793836800) + 1"
    "(6::int) \<le> 9223372036"
    by (simp_all add: test_env_def limited_once_def rate_limited_def world0_def
        whole_seconds_def)
  have step: "safe_request_loop (test_env limited_once) rq0 (Suc 4) None world0 =
           safe_request_loop (test_env limited_once) rq0 4 (Some rate_limited)
             (world0\<lparr>calls := Suc (calls world0), ticks := Suc (ticks world0),
                trace := trace world0 @ [Get rq0, Sleep (of_int 6)]\<rparr>)"
    using rate_limited_403_waits_then_retries [OF hyps, where n = 4 and resp = None]
    by (rule conjunct1)
  have "safe_request_loop (test_env limited_once) rq0 4 (Some rate_limited)
             (world0\<lparr>calls := Suc (calls world0), ticks := Suc (ticks world0),
                trace := trace world0 @ [Get rq0, Sleep (of_int 6)]\<rparr>)
        = (Inr (reply 200 (Some (JDict []))),
            \<lparr>calls = 2, ticks = 1, trace = [Get rq0, Sleep 6, Get rq0]\<rparr>)"
    by (simp add: four_attempts session_get_def test_env_def limited_once_def reply_def
        world0_def)
  with step show ?thesis by (simp only: safe_request_def five_attempts four_attempts)
qed

section \<open>The emitted record: properties\<close>











section \<open>Page walks: properties\<close>











section \<open>Rows that are dropped: properties\<close>


lemma pattern_other: "pattern_search ''https://example.org/other'' = None"
  by (simp add: match_here_def)

text \<open>What the loop over the rows does by design with a row that does not resolve and
  with a repository whose information is answered by a failure.\<close>

lemma row_skipped:
  "(lookup row ''Github_links'' JNone = JStr u \<and> pattern_search u = None \<longrightarrow>
      rows_loop E layout six (row # rows) acc w = rows_loop E layout six rows acc w)
   \<and> (lookup row ''Github_links'' JNone = JStr u \<and> pattern_search u = Some (owner, repo)
        \<and> safe_request E \<lparr>url = ''https://api.github.com/repos/'' @ owner @ ''/'' @ repo,
                            params = None\<rparr> w = (Inr resp, w1)
        \<and> status_code resp \<noteq> 200 \<longrightarrow>
      rows_loop E layout six (row # rows) acc w = rows_loop E layout six rows acc w1)"
  by (simp add: process_row_def)



section \<open>A repository whose commit and issue requests fail\<close>















section \<open>Average issue close time: properties\<close>






section \<open>Commits in the window and unique committers: properties\<close>










section \<open>Independence of the order inside sets\<close>










end
